theory Spec2Isabelle
  imports Complex_Main "HOL-Library.Sublist"
begin

section \<open>Python values and exceptions\<close>

text \<open>
  The adapter (\<^verbatim>\<open>nonebot/adapters/onebot/v11/adapter.py\<close>) works on decoded JSON.
  A decoded JSON value is one of Python's \<^verbatim>\<open>None\<close>, \<^verbatim>\<open>bool\<close>, number, \<^verbatim>\<open>str\<close>,
  \<^verbatim>\<open>list\<close> or \<^verbatim>\<open>dict\<close>; a dict is kept as an association list read with
  \<^const>\<open>map_of\<close>. Numbers are integers here: the adapter never computes with them.
\<close>

datatype json =
    JNull
  | JBool bool
  | JNum int
  | JStr string
  | JArr "json list"
  | JObj "(string \<times> json) list"

text \<open>The exceptions that the adapter raises, catches or lets through.\<close>

datatype exn =
    TypeError
  | KeyError
  | ValueError string
  | JSONDecodeError
  | ApiNotAvailable
  | NetworkError string
  | ActionFailed json
  | DriverError string

text \<open>Python's truth value of a decoded JSON value (\<^verbatim>\<open>if v:\<close>).\<close>

fun truthy :: "json \<Rightarrow> bool" where
  "truthy JNull = False"
| "truthy (JBool b) = b"
| "truthy (JNum n) = (n \<noteq> 0)"
| "truthy (JStr s) = (s \<noteq> [])"
| "truthy (JArr xs) = (xs \<noteq> [])"
| "truthy (JObj kvs) = (kvs \<noteq> [])"

text \<open>\<^verbatim>\<open>d.get(k)\<close>: the value, or \<^verbatim>\<open>None\<close> when the key is missing.\<close>

definition dict_get :: "(string \<times> json) list \<Rightarrow> string \<Rightarrow> json" where
  "dict_get d k = (case map_of d k of None \<Rightarrow> JNull | Some v \<Rightarrow> v)"

text \<open>
  An f-string field \<^verbatim>\<open>f"{v}"\<close>: a \<^verbatim>\<open>str\<close> is inserted as it is; the text of any
  other value is Python's \<^verbatim>\<open>str(v)\<close>, taken as the parameter \<open>repr\<close>.
\<close>

definition py_format :: "(json \<Rightarrow> string) \<Rightarrow> json \<Rightarrow> string" where
  "py_format repr v = (case v of JStr s \<Rightarrow> s | _ \<Rightarrow> repr v)"

text \<open>
  \<^verbatim>\<open>v + s\<close> with \<open>s\<close> a \<^verbatim>\<open>str\<close>: concatenation when \<open>v\<close> is a \<^verbatim>\<open>str\<close>, and
  \<^verbatim>\<open>TypeError\<close> for every other decoded JSON value.
\<close>

definition str_add :: "json \<Rightarrow> string \<Rightarrow> exn + string" where
  "str_add v s = (case v of JStr p \<Rightarrow> Inr (p @ s) | _ \<Rightarrow> Inl TypeError)"

text \<open>\<^verbatim>\<open>isinstance(v, str)\<close> on a decoded JSON value.\<close>

fun is_str :: "json \<Rightarrow> bool" where
  "is_str (JStr s) = True"
| "is_str v = False"

text \<open>\<^verbatim>\<open>s.split(c)\<close>: the pieces between the occurrences of \<open>c\<close>, never an empty list.\<close>

fun split_sep :: "char \<Rightarrow> string \<Rightarrow> string list" where
  "split_sep c [] = [[]]"
| "split_sep c (x # xs) =
     (if x = c then [] # split_sep c xs
      else (case split_sep c xs of
              [] \<Rightarrow> [[x]]
            | w # ws \<Rightarrow> (x # w) # ws))"

section \<open>Event models and the prefix registry\<close>

text \<open>
  A parsed event, with the attributes that the adapter reads: which model class built
  it, whether it is a \<^verbatim>\<open>LifecycleMetaEvent\<close>, its \<^verbatim>\<open>sub_type\<close> and its
  \<^verbatim>\<open>self_id\<close>.
\<close>

record event =
  ev_model :: string
  ev_lifecycle :: bool
  ev_sub_type :: string
  ev_self_id :: int

text \<open>
  An event model class: its \<^verbatim>\<open>__event__\<close> name and its \<^verbatim>\<open>parse_obj\<close>, which
  returns the event or raises (\<open>None\<close>). The classes themselves live in \<^verbatim>\<open>event.py\<close>
  and are parameters of everything below.
\<close>

record model =
  model_event :: string
  parse_obj :: "json \<Rightarrow> event option"

text \<open>
  \<^verbatim>\<open>StringTrie(separator=".")\<close>: a key is split at the separator and the value is
  stored under that path. \<^verbatim>\<open>prefixes(key)\<close> walks the path of \<open>key\<close> from the root
  and yields the value of every node on it that has one, shortest path first.
\<close>

type_synonym 'v trie = "string list \<rightharpoonup> 'v"

definition trie_set :: "'v trie \<Rightarrow> string \<Rightarrow> 'v \<Rightarrow> 'v trie" where
  "trie_set t key v = t(split_sep CHR ''.'' key \<mapsto> v)"

definition prefixes_path :: "'v trie \<Rightarrow> string list \<Rightarrow> 'v list" where
  "prefixes_path t path =
     concat (map (\<lambda>k. case t (take k path) of None \<Rightarrow> [] | Some v \<Rightarrow> [v])
                 [0..<Suc (length path)])"

definition prefixes :: "'v trie \<Rightarrow> string \<Rightarrow> 'v list" where
  "prefixes t key = prefixes_path t (split_sep CHR ''.'' key)"

text \<open>
  The class body of \<^verbatim>\<open>Adapter\<close> (lines 37-42) stores every model class found in
  \<^verbatim>\<open>event\<close> under \<^verbatim>\<open>"." + model.__event__\<close>, in the order of \<^verbatim>\<open>dir(event)\<close>.
\<close>

definition init_event_models :: "model list \<Rightarrow> model trie" where
  "init_event_models ms =
     fold (\<lambda>m t. trie_set t (''.'' @ model_event m) m) ms Map.empty"

text \<open>\<^verbatim>\<open>Adapter.add_custom_model\<close> (lines 384-388).\<close>

definition add_custom_model :: "model trie \<Rightarrow> model \<Rightarrow> exn + model trie" where
  "add_custom_model event_models m =
     (if model_event m = []
      then Inl (ValueError ''Event model's `__event__` attribute must be set'')
      else Inr (trie_set event_models (''.'' @ model_event m) m))"

text \<open>\<^verbatim>\<open>Adapter.get_event_model\<close> (lines 390-403): the prefixes, reversed.\<close>

definition get_event_model :: "model trie \<Rightarrow> string \<Rightarrow> model list" where
  "get_event_model event_models event_name = rev (prefixes event_models (''.'' @ event_name))"

section \<open>Parsing a payload\<close>

text \<open>
  Lines 360-365 of \<^verbatim>\<open>Adapter.json_to_event\<close>: the name handed to
  \<^verbatim>\<open>get_event_model\<close>. \<^verbatim>\<open>json_data["post_type"]\<close> raises \<^verbatim>\<open>KeyError\<close> on a
  missing key, and the final concatenation raises \<^verbatim>\<open>TypeError\<close> when
  \<^verbatim>\<open>post_type\<close> is not a \<^verbatim>\<open>str\<close>.
\<close>

definition event_name :: "(json \<Rightarrow> string) \<Rightarrow> (string \<times> json) list \<Rightarrow> exn + string" where
  "event_name repr json_data =
     (case map_of json_data ''post_type'' of
        None \<Rightarrow> Inl KeyError
      | Some post_type \<Rightarrow>
          (let detail_type = dict_get json_data (py_format repr post_type @ ''_type'');
               detail_type' = (if truthy detail_type then ''.'' @ py_format repr detail_type else []);
               sub_type = dict_get json_data ''sub_type'';
               sub_type' = (if truthy sub_type then ''.'' @ py_format repr sub_type else [])
           in str_add post_type (detail_type' @ sub_type')))"

text \<open>
  The \<^verbatim>\<open>for model in models\<close> loop (lines 366-371): the first model whose
  \<^verbatim>\<open>parse_obj\<close> does not raise gives the event; \<open>None\<close> is the loop running to its
  \<^verbatim>\<open>else\<close>.
\<close>

fun try_models :: "model list \<Rightarrow> json \<Rightarrow> event option" where
  "try_models [] json_data = None"
| "try_models (m # ms) json_data =
     (case parse_obj m json_data of
        Some ev \<Rightarrow> Some ev
      | None \<Rightarrow> try_models ms json_data)"

text \<open>
  \<^verbatim>\<open>Adapter.json_to_event\<close> (lines 347-382). The result is the returned event
  (\<open>None\<close> for Python's \<^verbatim>\<open>None\<close>) and the calls of \<^verbatim>\<open>ResultStore.add_result\<close> that
  were made. \<open>Event\<close> is the base model class. Every exception of the \<^verbatim>\<open>try\<close> block
  is caught by line 376, logged, and the function falls off its end.
\<close>

definition json_to_event ::
  "model trie \<Rightarrow> model \<Rightarrow> (json \<Rightarrow> string) \<Rightarrow> json \<Rightarrow> string option
     \<Rightarrow> event option \<times> (string \<times> json) list" where
  "json_to_event event_models Event repr json_data self_id =
     (case json_data of
        JObj d \<Rightarrow>
          (if map_of d ''post_type'' = None then
             (None, case self_id of None \<Rightarrow> [] | Some sid \<Rightarrow> [(sid, json_data)])
           else
             (case event_name repr d of
                Inl e \<Rightarrow> (None, [])
              | Inr name \<Rightarrow>
                  (case try_models (get_event_model event_models name) json_data of
                     Some ev \<Rightarrow> (Some ev, [])
                   | None \<Rightarrow> (parse_obj Event json_data, []))))
      | _ \<Rightarrow> (None, []))"

text \<open>
  The path under which the registry keeps the model of an event name: the key is
  \<^verbatim>\<open>"." + name\<close>, split at the dots.
\<close>

definition key_path :: "string \<Rightarrow> string list" where
  "key_path name = split_sep CHR ''.'' (''.'' @ name)"

text \<open>
  What a qualifier field adds to the event name, in the words of the specification:
  nothing when the field is absent or empty (false in Python), otherwise a dot and
  the field's text.
\<close>

definition qualifier :: "(json \<Rightarrow> string) \<Rightarrow> json option \<Rightarrow> string" where
  "qualifier repr q =
     (case q of None \<Rightarrow> [] | Some v \<Rightarrow> if truthy v then ''.'' @ py_format repr v else [])"

section \<open>Sample data\<close>

text \<open>
  Concrete instances of the parameters, on which the theorems are evaluated:
  \<^verbatim>\<open>str\<close> on the non-string values that the examples format (\<^verbatim>\<open>1\<close>,
  \<^verbatim>\<open>404\<close> and \<^verbatim>\<open>None\<close>), four model classes with the names of \<^verbatim>\<open>Event\<close>,
  \<^verbatim>\<open>MessageEvent\<close>, \<^verbatim>\<open>PrivateMessageEvent\<close> and \<^verbatim>\<open>LifecycleMetaEvent\<close>, each
  requiring some fields, and three payloads.
\<close>

definition sample_repr :: "json \<Rightarrow> string" where
  "sample_repr v = (if v = JNum 1 then ''1'' else if v = JNum 404 then ''404'' else ''None'')"

definition sample_event :: "string \<Rightarrow> json \<Rightarrow> event" where
  "sample_event cls json_data =
     \<lparr>ev_model = cls, ev_lifecycle = False, ev_sub_type = [], ev_self_id = 0\<rparr>"

definition sample_Event :: model where
  "sample_Event = \<lparr>model_event = [], parse_obj = (\<lambda>j. Some (sample_event ''Event'' j))\<rparr>"

definition sample_MessageEvent :: model where
  "sample_MessageEvent =
     \<lparr>model_event = ''message'',
      parse_obj = (\<lambda>j. case j of
                         JObj d \<Rightarrow> (if map_of d ''message'' = None then None
                                   else Some (sample_event ''MessageEvent'' j))
                       | _ \<Rightarrow> None)\<rparr>"

definition sample_PrivateMessageEvent :: model where
  "sample_PrivateMessageEvent =
     \<lparr>model_event = ''message.private'',
      parse_obj = (\<lambda>j. case j of
                         JObj d \<Rightarrow> (if map_of d ''message'' = None \<or> map_of d ''user_id'' = None then None
                                   else Some (sample_event ''PrivateMessageEvent'' j))
                       | _ \<Rightarrow> None)\<rparr>"

definition sample_LifecycleMetaEvent :: model where
  "sample_LifecycleMetaEvent =
     \<lparr>model_event = ''meta_event.lifecycle'',
      parse_obj = (\<lambda>j. case j of
                         JObj d \<Rightarrow>
                           (case (map_of d ''sub_type'', map_of d ''self_id'') of
                              (Some (JStr s), Some (JNum n)) \<Rightarrow>
                                Some \<lparr>ev_model = ''LifecycleMetaEvent'', ev_lifecycle = True,
                                      ev_sub_type = s, ev_self_id = n\<rparr>
                            | _ \<Rightarrow> None)
                       | _ \<Rightarrow> None)\<rparr>"

definition sample_models :: "model trie" where
  "sample_models =
     init_event_models
       [sample_Event, sample_MessageEvent, sample_PrivateMessageEvent, sample_LifecycleMetaEvent]"

definition sample_payload :: "(string \<times> json) list" where
  "sample_payload =
     [(''post_type'', JStr ''message''), (''message_type'', JStr ''private''),
      (''sub_type'', JStr []), (''message'', JStr ''hi'')]"

definition falsy_payload :: "(string \<times> json) list" where
  "falsy_payload =
     [(''post_type'', JStr ''message''), (''message_type'', JNum 0), (''sub_type'', JBool False)]"

definition numeric_payload :: "(string \<times> json) list" where
  "numeric_payload = [(''post_type'', JNum 1), (''time'', JNum 0), (''self_id'', JNum 1)]"

section \<open>The adapter and its environment\<close>

text \<open>
  \<^verbatim>\<open>Request\<close> and \<^verbatim>\<open>Response\<close> of the driver. Header names are the lower-case
  keys that the adapter looks up; a missing header or body is \<open>None\<close>.
\<close>

record request =
  http_method :: string
  url :: string
  headers :: "string \<rightharpoonup> string"
  content :: "string option"
  timeout :: "real option"

record response =
  status_code :: int
  resp_content :: "string option"

text \<open>A \<^verbatim>\<open>WebSocket\<close> of the driver: its identity and the request that opened it.\<close>

record websocket =
  ws_id :: nat
  ws_request :: request

datatype bot = Bot (self_id: string)

text \<open>The settings that the adapter reads from \<^verbatim>\<open>self.onebot_config\<close> and \<^verbatim>\<open>self.config\<close>.\<close>

record config =
  onebot_secret :: "string option"
  onebot_access_token :: "string option"
  api_root :: "string \<rightharpoonup> string"
  api_timeout :: "real option"

text \<open>
  The mutable state: \<^verbatim>\<open>self.connections\<close>, \<^verbatim>\<open>self.bots\<close>, the events handed to
  \<^verbatim>\<open>asyncio.create_task(bot.handle_event(event))\<close>, in order, and the calls of
  \<^verbatim>\<open>ResultStore.add_result\<close>, in order.
\<close>

record adapter =
  connections :: "string \<rightharpoonup> websocket"
  bots :: "string \<rightharpoonup> bot"
  dispatched :: "(bot \<times> event) list"
  results :: "(string \<times> json) list"

text \<open>
  What the adapter calls but does not define: the registered model classes and the
  base class, \<^verbatim>\<open>str\<close>, \<^verbatim>\<open>json.loads\<close> (\<open>None\<close> when it raises) and
  \<^verbatim>\<open>json.dumps\<close>, \<^verbatim>\<open>get_auth_bearer\<close> and \<^verbatim>\<open>_handle_api_result\<close> of
  \<^verbatim>\<open>utils.py\<close>, the hexadecimal HMAC-SHA1 of a body under a secret, whether the
  driver is a \<^verbatim>\<open>ForwardDriver\<close>, and the outcomes of the awaited calls
  \<^verbatim>\<open>websocket.send\<close> (\<open>None\<close> when it returns), \<^verbatim>\<open>ResultStore.get_seq\<close>,
  \<^verbatim>\<open>ResultStore.fetch\<close> and \<^verbatim>\<open>driver.request\<close>.
\<close>

record env =
  env_models :: "model trie"
  env_Event :: model
  env_str :: "json \<Rightarrow> string"
  json_loads :: "string \<Rightarrow> json option"
  json_dumps :: "json \<Rightarrow> string"
  get_auth_bearer :: "string option \<Rightarrow> string option"
  handle_api_result :: "json \<Rightarrow> exn + json"
  hmac_sha1_hexdigest :: "string \<Rightarrow> string \<Rightarrow> string"
  is_forward_driver :: bool
  ws_send :: "websocket \<Rightarrow> string \<Rightarrow> exn option"
  get_seq :: int
  fetch :: "string \<Rightarrow> int \<Rightarrow> real option \<Rightarrow> exn + json"
  driver_request :: "request \<Rightarrow> exn + response"

text \<open>
  \<^verbatim>\<open>bot_connect\<close> and \<^verbatim>\<open>bot_disconnect\<close> of the base adapter class, by their effect
  on \<^verbatim>\<open>self.bots\<close>.
\<close>

definition bot_connect :: "adapter \<Rightarrow> bot \<Rightarrow> adapter" where
  "bot_connect st b = st\<lparr>bots := (bots st)(self_id b \<mapsto> b)\<rparr>"

definition bot_disconnect :: "adapter \<Rightarrow> bot \<Rightarrow> adapter" where
  "bot_disconnect st b = st\<lparr>bots := (bots st)(self_id b := None)\<rparr>"

text \<open>\<^verbatim>\<open>asyncio.create_task(bot.handle_event(event))\<close>.\<close>

definition create_task :: "adapter \<Rightarrow> bot \<Rightarrow> event \<Rightarrow> adapter" where
  "create_task st b ev = st\<lparr>dispatched := dispatched st @ [(b, ev)]\<rparr>"

text \<open>Python's truth value of an optional string: \<^verbatim>\<open>None\<close> and \<^verbatim>\<open>""\<close> are false.\<close>

definition truthy_str :: "string option \<Rightarrow> bool" where
  "truthy_str s = (s \<noteq> None \<and> s \<noteq> Some [])"

section \<open>The webhook handler\<close>

text \<open>\<^verbatim>\<open>Adapter._check_signature\<close> (lines 219-239); \<open>None\<close> is falling off the end.\<close>

definition check_signature :: "env \<Rightarrow> config \<Rightarrow> request \<Rightarrow> response option" where
  "check_signature e cfg request =
     (let x_signature = headers request ''x-signature'';
          secret = onebot_secret cfg
      in if truthy_str secret then
           (if \<not> truthy_str x_signature then
              Some \<lparr>status_code = 401, resp_content = Some ''Missing Signature''\<rparr>
            else
              (case content request of
                 None \<Rightarrow> Some \<lparr>status_code = 400, resp_content = Some ''Missing Content''\<rparr>
               | Some body \<Rightarrow>
                   (if x_signature \<noteq>
                         Some (''sha1='' @ hmac_sha1_hexdigest e (case secret of Some s \<Rightarrow> s | None \<Rightarrow> []) body)
                    then Some \<lparr>status_code = 403, resp_content = Some ''Signature is invalid''\<rparr>
                    else None)))
         else None)"

text \<open>\<^verbatim>\<open>Adapter._check_access_token\<close> (lines 241-258).\<close>

definition check_access_token :: "env \<Rightarrow> config \<Rightarrow> request \<Rightarrow> response option" where
  "check_access_token e cfg request =
     (let token = get_auth_bearer e (headers request ''authorization'');
          access_token = onebot_access_token cfg
      in if truthy_str access_token \<and> access_token \<noteq> token then
           Some \<lparr>status_code = 403,
                 resp_content = Some (if truthy_str token then ''Authorization Header is invalid''
                                      else ''Missing Authorization Header'')\<rparr>
         else None)"

text \<open>
  \<^verbatim>\<open>Adapter._handle_http\<close> (lines 138-168): the response, or the exception that
  leaves the handler, and the state afterwards. \<^verbatim>\<open>json.loads\<close> on line 158 is not
  inside any \<^verbatim>\<open>try\<close>.
\<close>

definition handle_http :: "env \<Rightarrow> config \<Rightarrow> adapter \<Rightarrow> request \<Rightarrow> (exn + response) \<times> adapter" where
  "handle_http e cfg st request =
     (let x_self_id = headers request ''x-self-id'' in
      if \<not> truthy_str x_self_id then
        (Inr \<lparr>status_code = 400, resp_content = Some ''Missing X-Self-ID Header''\<rparr>, st)
      else
        (case check_signature e cfg request of
           Some response \<Rightarrow> (Inr response, st)
         | None \<Rightarrow>
             (case check_access_token e cfg request of
                Some response \<Rightarrow> (Inr response, st)
              | None \<Rightarrow>
                  (case content request of
                     None \<Rightarrow> (Inr \<lparr>status_code = 204, resp_content = None\<rparr>, st)
                   | Some data \<Rightarrow>
                       (case json_loads e data of
                          None \<Rightarrow> (Inl JSONDecodeError, st)
                        | Some json_data \<Rightarrow>
                            (case fst (json_to_event (env_models e) (env_Event e) (env_str e) json_data None) of
                               None \<Rightarrow> (Inr \<lparr>status_code = 204, resp_content = None\<rparr>, st)
                             | Some ev \<Rightarrow>
                                 (let sid = (case x_self_id of Some s \<Rightarrow> s | None \<Rightarrow> []);
                                      b = (case bots st sid of Some b \<Rightarrow> b | None \<Rightarrow> Bot sid);
                                      st' = (case bots st sid of
                                               Some b \<Rightarrow> st
                                             | None \<Rightarrow> bot_connect st (Bot sid))
                                  in (Inr \<lparr>status_code = 204, resp_content = None\<rparr>,
                                      create_task st' b ev))))))))"

section \<open>Calling an API\<close>

text \<open>
  The request that the HTTP path of \<^verbatim>\<open>Adapter._call_api\<close> builds (lines 102-117)
  from a non-empty \<^verbatim>\<open>api_root\<close>.
\<close>

definition api_request :: "env \<Rightarrow> config \<Rightarrow> string \<Rightarrow> string \<Rightarrow> (string \<times> json) list \<Rightarrow> request" where
  "api_request e cfg base api data =
     (let base' = (if last base \<noteq> CHR ''/'' then base @ ''/'' else base);
          hs = [''Content-Type'' \<mapsto> ''application/json''];
          hs' = (case onebot_access_token cfg of
                   None \<Rightarrow> hs
                 | Some t \<Rightarrow> hs(''Authorization'' \<mapsto> ''Bearer '' @ t))
      in \<lparr>http_method = ''POST'', url = base' @ api, headers = hs',
          content = Some (json_dumps e (JObj data)), timeout = api_timeout cfg\<rparr>)"

text \<open>
  The \<^verbatim>\<open>try\<close> block of lines 119-134: a \<^verbatim>\<open>NetworkError\<close> is raised again, every
  other exception becomes \<^verbatim>\<open>NetworkError("HTTP request failed")\<close>.
\<close>

definition as_network_error :: "exn + json \<Rightarrow> exn + json" where
  "as_network_error r =
     (case r of
        Inr v \<Rightarrow> Inr v
      | Inl (NetworkError m) \<Rightarrow> Inl (NetworkError m)
      | Inl _ \<Rightarrow> Inl (NetworkError ''HTTP request failed''))"

text \<open>\<^verbatim>\<open>Adapter._call_api\<close> (lines 83-136): the returned value or the exception raised.\<close>

definition call_api :: "env \<Rightarrow> config \<Rightarrow> adapter \<Rightarrow> bot \<Rightarrow> string \<Rightarrow> (string \<times> json) list \<Rightarrow> exn + json" where
  "call_api e cfg st b api data =
     (case connections st (self_id b) of
        Some websocket \<Rightarrow>
          (let seq = get_seq e;
               json_data = json_dumps e
                 (JObj [(''action'', JStr api), (''params'', JObj data),
                        (''echo'', JObj [(''seq'', JNum seq)])])
           in case ws_send e websocket json_data of
                Some err \<Rightarrow> Inl err
              | None \<Rightarrow>
                  (case fetch e (self_id b) seq (api_timeout cfg) of
                     Inl err \<Rightarrow> Inl err
                   | Inr result \<Rightarrow> handle_api_result e result))
      | None \<Rightarrow>
          (if is_forward_driver e then
             (if \<not> truthy_str (api_root cfg (self_id b)) then Inl ApiNotAvailable
              else
                as_network_error
                  (case driver_request e
                          (api_request e cfg (case api_root cfg (self_id b) of Some r \<Rightarrow> r | None \<Rightarrow> []) api data) of
                     Inl err \<Rightarrow> Inl err
                   | Inr response \<Rightarrow>
                       (if 200 \<le> status_code response \<and> status_code response < 300 then
                          (if \<not> truthy_str (resp_content response) then Inl (ValueError ''Empty response'')
                           else
                             (case json_loads e (case resp_content response of Some c \<Rightarrow> c | None \<Rightarrow> []) of
                                None \<Rightarrow> Inl JSONDecodeError
                              | Some result \<Rightarrow> handle_api_result e result))
                        else
                          Inl (NetworkError (''HTTP request received unexpected status code: ''
                                             @ env_str e (JNum (status_code response)))))))
           else Inl ApiNotAvailable))"

section \<open>The reverse WebSocket handler\<close>

text \<open>
  Lines 171-195 of \<^verbatim>\<open>Adapter._handle_ws\<close>, up to the receive loop: either the
  socket is closed with a code and a reason, or it is accepted and registered.
\<close>

definition ws_open :: "env \<Rightarrow> config \<Rightarrow> adapter \<Rightarrow> websocket \<Rightarrow> (int \<times> string) option \<times> adapter" where
  "ws_open e cfg st websocket =
     (let x_self_id = headers (ws_request websocket) ''x-self-id'';
          sid = (case x_self_id of Some s \<Rightarrow> s | None \<Rightarrow> [])
      in if \<not> truthy_str x_self_id then (Some (1008, ''Missing X-Self-ID Header''), st)
         else if sid \<in> dom (bots st) then (Some (1008, ''Duplicate X-Self-ID''), st)
         else
           (case check_access_token e cfg (ws_request websocket) of
              Some response \<Rightarrow>
                (Some (1008, case resp_content response of Some c \<Rightarrow> c | None \<Rightarrow> []), st)
            | None \<Rightarrow>
                (None,
                 bot_connect (st\<lparr>connections := (connections st)(sid \<mapsto> websocket)\<rparr>)
                             (Bot sid))))"

text \<open>
  The receive loop (lines 198-203) over the texts that \<^verbatim>\<open>websocket.receive()\<close>
  returns before it raises. A text that \<^verbatim>\<open>json.loads\<close> rejects ends the loop as well
  (line 204). \<^verbatim>\<open>json_to_event\<close> is called without a \<^verbatim>\<open>self_id\<close>.
\<close>

fun ws_loop :: "env \<Rightarrow> adapter \<Rightarrow> bot \<Rightarrow> string list \<Rightarrow> adapter" where
  "ws_loop e st b [] = st"
| "ws_loop e st b (data # rest) =
     (case json_loads e data of
        None \<Rightarrow> st
      | Some json_data \<Rightarrow>
          (case json_to_event (env_models e) (env_Event e) (env_str e) json_data None of
             (None, added) \<Rightarrow> ws_loop e (st\<lparr>results := results st @ added\<rparr>) b rest
           | (Some ev, added) \<Rightarrow>
               ws_loop e (create_task (st\<lparr>results := results st @ added\<rparr>) b ev) b rest))"

text \<open>The \<^verbatim>\<open>finally\<close> block (lines 211-217).\<close>

definition ws_finally :: "adapter \<Rightarrow> bot \<Rightarrow> adapter" where
  "ws_finally st b = bot_disconnect (st\<lparr>connections := (connections st)(self_id b := None)\<rparr>) b"

text \<open>\<^verbatim>\<open>Adapter._handle_ws\<close> as a whole, for a socket that delivers \<open>received\<close>.\<close>

definition handle_ws ::
  "env \<Rightarrow> config \<Rightarrow> adapter \<Rightarrow> websocket \<Rightarrow> string list \<Rightarrow> (int \<times> string) option \<times> adapter" where
  "handle_ws e cfg st websocket received =
     (case ws_open e cfg st websocket of
        (Some rejection, st') \<Rightarrow> (Some rejection, st')
      | (None, st') \<Rightarrow>
          (let b = Bot (case headers (ws_request websocket) ''x-self-id'' of Some s \<Rightarrow> s | None \<Rightarrow> [])
           in (None, ws_finally (ws_loop e st' b received) b)))"

section \<open>The forward link\<close>

definition RECONNECT_INTERVAL :: real where
  "RECONNECT_INTERVAL = 3"

text \<open>
  \<^verbatim>\<open>Adapter._forward_ws\<close> (lines 280-345) is a loop that never leaves by itself. It
  is modelled by where it is suspended: in \<^verbatim>\<open>self.websocket(request)\<close>
  (\<open>Connecting\<close>), in \<^verbatim>\<open>asyncio.sleep\<close> of some duration (\<open>Sleeping\<close>), or in
  \<^verbatim>\<open>ws.receive()\<close> on a socket with the bot bound so far (\<open>Receiving\<close>); \<open>Stopped\<close>
  is the task ended by cancellation. An input is what the awaited call does: it
  raises an \<^verbatim>\<open>Exception\<close>, returns, or the task is cancelled
  (\<^verbatim>\<open>asyncio.CancelledError\<close>, which \<^verbatim>\<open>except Exception\<close> does not catch).
\<close>

datatype link_state =
    Connecting
  | Sleeping real
  | Receiving websocket "bot option"
  | Stopped

datatype link_input =
    ConnectFailed
  | Connected websocket
  | Received string
  | ReceiveFailed
  | Woke
  | Cancelled

text \<open>The \<^verbatim>\<open>finally\<close> block of lines 335-343.\<close>

definition forward_finally :: "adapter \<Rightarrow> bot option \<Rightarrow> adapter" where
  "forward_finally st b =
     (case b of
        None \<Rightarrow> st
      | Some b' \<Rightarrow> bot_disconnect (st\<lparr>connections := (connections st)(self_id b' := None)\<rparr>) b')"

text \<open>One iteration of the inner loop (lines 307-326) on a received text.\<close>

definition forward_receive :: "env \<Rightarrow> adapter \<Rightarrow> websocket \<Rightarrow> bot option \<Rightarrow> string \<Rightarrow> adapter \<times> link_state" where
  "forward_receive e st ws b data =
     (case json_loads e data of
        None \<Rightarrow> (forward_finally st b, Sleeping RECONNECT_INTERVAL)
      | Some json_data \<Rightarrow>
          (case json_to_event (env_models e) (env_Event e) (env_str e) json_data (map_option self_id b) of
             (None, added) \<Rightarrow> (st\<lparr>results := results st @ added\<rparr>, Receiving ws b)
           | (Some ev, added) \<Rightarrow>
               (let st1 = st\<lparr>results := results st @ added\<rparr> in
                case b of
                  Some b' \<Rightarrow> (create_task st1 b' ev, Receiving ws b)
                | None \<Rightarrow>
                    (if \<not> ev_lifecycle ev \<or> ev_sub_type ev \<noteq> ''connect'' then (st1, Receiving ws b)
                     else
                       (let sid = py_format (env_str e) (JNum (ev_self_id ev));
                            b' = Bot sid;
                            st2 = bot_connect (st1\<lparr>connections := (connections st1)(sid \<mapsto> ws)\<rparr>) b'
                        in (create_task st2 b' ev, Receiving ws (Some b')))))))"

text \<open>
  One step of the link. An input that does not answer the awaited call leaves the
  link where it is.
\<close>

fun forward_step :: "env \<Rightarrow> adapter \<times> link_state \<Rightarrow> link_input \<Rightarrow> adapter \<times> link_state" where
  "forward_step e (st, Connecting) ConnectFailed = (st, Sleeping RECONNECT_INTERVAL)"
| "forward_step e (st, Connecting) (Connected ws) = (st, Receiving ws None)"
| "forward_step e (st, Connecting) Cancelled = (st, Stopped)"
| "forward_step e (st, Sleeping d) Woke = (st, Connecting)"
| "forward_step e (st, Sleeping d) Cancelled = (st, Stopped)"
| "forward_step e (st, Receiving ws b) (Received data) = forward_receive e st ws b data"
| "forward_step e (st, Receiving ws b) ReceiveFailed = (forward_finally st b, Sleeping RECONNECT_INTERVAL)"
| "forward_step e (st, Receiving ws b) Cancelled = (forward_finally st b, Stopped)"
| "forward_step e (st, ls) _ = (st, ls)"

text \<open>The link run on a sequence of inputs.\<close>

definition forward_ws :: "env \<Rightarrow> adapter \<times> link_state \<Rightarrow> link_input list \<Rightarrow> adapter \<times> link_state" where
  "forward_ws e start inputs = foldl (forward_step e) start inputs"

text \<open>The places where the link is suspended, one after each input.\<close>

fun forward_trace :: "env \<Rightarrow> adapter \<times> link_state \<Rightarrow> link_input list \<Rightarrow> link_state list" where
  "forward_trace e s [] = []"
| "forward_trace e s (i # inputs) =
     snd (forward_step e s i) # forward_trace e (forward_step e s i) inputs"

section \<open>The checks of the webhook, in the order of the specification as amended\<close>

text \<open>
  The status with which a webhook request is turned away, the checks taken in this
  order: 400 without an identity header; with a secret configured, 401 without a
  signature header, then 400 without a body, then 403 when the signature does not
  match; with a token configured, 403 when the presented token is missing or
  different. \<open>None\<close> when every configured check passes.
\<close>

definition http_rejection :: "env \<Rightarrow> config \<Rightarrow> request \<Rightarrow> int option" where
  "http_rejection e cfg request =
     (if \<not> truthy_str (headers request ''x-self-id'') then Some 400
      else if truthy_str (onebot_secret cfg) \<and> \<not> truthy_str (headers request ''x-signature'')
        then Some 401
      else if truthy_str (onebot_secret cfg) \<and> content request = None then Some 400
      else if truthy_str (onebot_secret cfg) \<and>
              headers request ''x-signature'' \<noteq>
                Some (''sha1='' @ hmac_sha1_hexdigest e
                                    (case onebot_secret cfg of Some s \<Rightarrow> s | None \<Rightarrow> [])
                                    (case content request of Some body \<Rightarrow> body | None \<Rightarrow> []))
        then Some 403
      else if truthy_str (onebot_access_token cfg) \<and>
              get_auth_bearer e (headers request ''authorization'') \<noteq> onebot_access_token cfg
        then Some 403
      else None)"

section \<open>Sample environment\<close>

text \<open>
  An instance of the environment for the examples. \<^verbatim>\<open>json.loads\<close> is given on five
  texts: four objects, and \<^verbatim>\<open>{\<close>, which is not JSON. \<^verbatim>\<open>get_auth_bearer\<close> strips
  the scheme \<^verbatim>\<open>Bearer\<close>; \<^verbatim>\<open>_handle_api_result\<close> raises \<^verbatim>\<open>ActionFailed\<close> on a
  result whose status is \<^verbatim>\<open>failed\<close> and returns its \<^verbatim>\<open>data\<close> otherwise; the
  digest is a fixed text; the driver answers every request with the given response.
\<close>

definition quoted :: "string \<Rightarrow> string" where
  "quoted s = CHR 0x22 # s @ [CHR 0x22]"

definition message_text :: string where
  "message_text =
     ''{'' @ quoted ''post_type'' @ '': '' @ quoted ''message'' @ '', ''
           @ quoted ''message_type'' @ '': '' @ quoted ''private'' @ '', ''
           @ quoted ''sub_type'' @ '': '' @ quoted [] @ '', ''
           @ quoted ''message'' @ '': '' @ quoted ''hi'' @ ''}''"

definition connect_payload :: "(string \<times> json) list" where
  "connect_payload =
     [(''post_type'', JStr ''meta_event''), (''meta_event_type'', JStr ''lifecycle''),
      (''sub_type'', JStr ''connect''), (''self_id'', JNum 1), (''time'', JNum 0)]"

definition connect_text :: string where
  "connect_text =
     ''{'' @ quoted ''post_type'' @ '': '' @ quoted ''meta_event'' @ '', ''
           @ quoted ''meta_event_type'' @ '': '' @ quoted ''lifecycle'' @ '', ''
           @ quoted ''sub_type'' @ '': '' @ quoted ''connect'' @ '', ''
           @ quoted ''self_id'' @ '': 1, '' @ quoted ''time'' @ '': 0}''"

definition failed_result :: "(string \<times> json) list" where
  "failed_result = [(''status'', JStr ''failed''), (''retcode'', JNum 100), (''data'', JNull)]"

definition failed_text :: string where
  "failed_text =
     ''{'' @ quoted ''status'' @ '': '' @ quoted ''failed'' @ '', ''
           @ quoted ''retcode'' @ '': 100, '' @ quoted ''data'' @ '': null}''"

definition ok_result :: "(string \<times> json) list" where
  "ok_result =
     [(''status'', JStr ''ok''), (''retcode'', JNum 0), (''data'', JObj [(''online'', JBool True)])]"

definition ok_text :: string where
  "ok_text =
     ''{'' @ quoted ''status'' @ '': '' @ quoted ''ok'' @ '', ''
           @ quoted ''retcode'' @ '': 0, '' @ quoted ''data'' @ '': {''
           @ quoted ''online'' @ '': true}}''"

definition sample_loads :: "string \<Rightarrow> json option" where
  "sample_loads s =
     (if s = message_text then Some (JObj sample_payload)
      else if s = connect_text then Some (JObj connect_payload)
      else if s = failed_text then Some (JObj failed_result)
      else if s = ok_text then Some (JObj ok_result)
      else None)"

definition sample_bearer :: "string option \<Rightarrow> string option" where
  "sample_bearer h =
     (case h of
        None \<Rightarrow> None
      | Some s \<Rightarrow> if take 7 s = ''Bearer '' then Some (drop 7 s) else None)"

definition sample_handle_api_result :: "json \<Rightarrow> exn + json" where
  "sample_handle_api_result result =
     (case result of
        JObj d \<Rightarrow> (if map_of d ''status'' = Some (JStr ''failed'') then Inl (ActionFailed result)
                   else Inr (dict_get d ''data''))
      | _ \<Rightarrow> Inr JNull)"

definition sample_env_with :: "bool \<Rightarrow> response \<Rightarrow> env" where
  "sample_env_with forward answer =
     \<lparr>env_models = sample_models,
      env_Event = sample_Event,
      env_str = sample_repr,
      json_loads = sample_loads,
      json_dumps = (\<lambda>j. ''{}''),
      get_auth_bearer = sample_bearer,
      handle_api_result = sample_handle_api_result,
      hmac_sha1_hexdigest = (\<lambda>secret body. ''da39a3ee''),
      is_forward_driver = forward,
      ws_send = (\<lambda>ws text. None),
      get_seq = 1,
      fetch = (\<lambda>sid seq t. Inl (NetworkError ''WebSocket API call timeout'')),
      driver_request = (\<lambda>request. Inr answer)\<rparr>"

definition sample_env :: env where
  "sample_env = sample_env_with True \<lparr>status_code = 200, resp_content = Some failed_text\<rparr>"

definition empty_adapter :: adapter where
  "empty_adapter = \<lparr>connections = Map.empty, bots = Map.empty, dispatched = [], results = []\<rparr>"

definition sample_config :: "string option \<Rightarrow> string option \<Rightarrow> config" where
  "sample_config secret token =
     \<lparr>onebot_secret = secret, onebot_access_token = token,
      api_root = [''1'' \<mapsto> ''http://127.0.0.1:5700''], api_timeout = Some 30\<rparr>"

definition post :: "(string \<times> string) list \<Rightarrow> string option \<Rightarrow> request" where
  "post hs body =
     \<lparr>http_method = ''POST'', url = ''/onebot/v11/http'', headers = map_of hs, content = body,
      timeout = None\<rparr>"

text \<open>
  Two sockets: one opened by a peer on the reverse endpoint with the identity \<^verbatim>\<open>1\<close>,
  one opened by the adapter on a forward URL.
\<close>

definition reverse_socket :: websocket where
  "reverse_socket =
     \<lparr>ws_id = 7,
      ws_request = \<lparr>http_method = ''GET'', url = ''/onebot/v11/ws'',
                    headers = [''x-self-id'' \<mapsto> ''1''], content = None, timeout = None\<rparr>\<rparr>"

definition forward_socket :: websocket where
  "forward_socket =
     \<lparr>ws_id = 8,
      ws_request = \<lparr>http_method = ''GET'', url = ''ws://127.0.0.1:6700'',
                    headers = Map.empty, content = None, timeout = None\<rparr>\<rparr>"

text \<open>The adapter after the peer \<^verbatim>\<open>1\<close> has connected on the reverse endpoint.\<close>

definition reverse_connected :: adapter where
  "reverse_connected = snd (ws_open sample_env (sample_config None None) empty_adapter reverse_socket)"

text \<open>What the sample \<^verbatim>\<open>LifecycleMetaEvent\<close> makes of the connect payload.\<close>

definition connect_event :: event where
  "connect_event =
     \<lparr>ev_model = ''LifecycleMetaEvent'', ev_lifecycle = True, ev_sub_type = ''connect'',
      ev_self_id = 1\<rparr>"

section \<open>The event classifier\<close>

subsection \<open>Auxiliary facts\<close>
lemma upt_split1: "i \<le> k \<Longrightarrow> k < j \<Longrightarrow> [i..<j] = [i..<k] @ k # [Suc k..<j]"
proof -
  assume a: "i \<le> k" "k < j"
  have "[i..<k + (j - k)] = [i..<k] @ [k..<k + (j - k)]"
    using a(1) by (rule upt_add_eq_append)
  then have "[i..<j] = [i..<k] @ [k..<j]" using a(2) by simp
  then show ?thesis using a(2) by (simp add: upt_conv_Cons)
qed

lemma prefixes_path_split:
  assumes "k1 < k2" "k2 \<le> length path"
    and "t (take k1 path) = Some m1" "t (take k2 path) = Some m2"
  shows "\<exists>A B C. prefixes_path t path = A @ m1 # B @ m2 # C \<and> (k2 = length path \<longrightarrow> C = [])"
proof -
  let ?f = "\<lambda>k. case t (take k path) of None \<Rightarrow> [] | Some v \<Rightarrow> [v]"
  let ?n = "Suc (length path)"
  have 1: "[0..<?n] = [0..<k1] @ k1 # [Suc k1..<?n]"
    using assms(1,2) by (intro upt_split1) auto
  have 2: "[Suc k1..<?n] = [Suc k1..<k2] @ k2 # [Suc k2..<?n]"
    using assms(1,2) by (intro upt_split1) auto
  have "prefixes_path t path =
      concat (map ?f [0..<k1]) @ m1 # concat (map ?f [Suc k1..<k2]) @ m2 # concat (map ?f [Suc k2..<?n])"
    unfolding prefixes_path_def by (subst 1, subst 2) (simp add: assms(3,4))
  moreover have "k2 = length path \<Longrightarrow> concat (map ?f [Suc k2..<?n]) = []" by simp
  ultimately show ?thesis by blast
qed

lemma prefixes_path_order:
  assumes "strict_prefix q1 q2" "t q1 = Some m1" "t q2 = Some m2"
  shows "\<exists>B A. rev (prefixes_path t q2) = m2 # B @ m1 # A"
proof -
  from assms(1) obtain zs where zs: "q2 = q1 @ zs" "zs \<noteq> []"
    by (auto simp: strict_prefix_def prefix_def)
  then have k: "length q1 < length q2" "take (length q1) q2 = q1" by auto
  have "\<exists>A B C. prefixes_path t q2 = A @ m1 # B @ m2 # C \<and> (length q2 = length q2 \<longrightarrow> C = [])"
    by (rule prefixes_path_split[OF k(1)]) (simp_all add: k(2) assms(2,3))
  then obtain A B where "prefixes_path t q2 = A @ m1 # B @ [m2]" by auto
  then have "rev (prefixes_path t q2) = m2 # rev B @ m1 # rev A" by simp
  then show ?thesis by blast
qed

lemma rev_prefixes_path:
  "rev (prefixes_path t path) =
     concat (map (\<lambda>k. case t (take k path) of None \<Rightarrow> [] | Some v \<Rightarrow> [v])
                 (rev [0..<Suc (length path)]))"
proof -
  have "rev \<circ> (\<lambda>k. case t (take k path) of None \<Rightarrow> [] | Some v \<Rightarrow> [v])
        = (\<lambda>k. case t (take k path) of None \<Rightarrow> [] | Some v \<Rightarrow> [v])"
    by (auto simp: fun_eq_iff split: option.splits)
  then show ?thesis
    unfolding prefixes_path_def by (simp only: rev_concat rev_map map_map)
qed

lemma try_models_find:
  "try_models ms j =
     (case find (\<lambda>m. parse_obj m j \<noteq> None) ms of None \<Rightarrow> None | Some m \<Rightarrow> parse_obj m j)"
  by (induction ms) (auto split: option.splits)

lemma try_models_append:
  "try_models (xs @ ys) j = (case try_models xs j of Some ev \<Rightarrow> Some ev | None \<Rightarrow> try_models ys j)"
  by (induction xs) (auto split: option.splits)

lemma try_models_accepting:
  "parse_obj m j \<noteq> None \<Longrightarrow> try_models (xs @ [m]) j \<noteq> None"
  by (induction xs) (auto split: option.splits)

lemma event_name_str:
  assumes "map_of d ''post_type'' = Some (JStr p)"
  shows "event_name repr d =
           Inr (p @ qualifier repr (map_of d (p @ ''_type'')) @ qualifier repr (map_of d ''sub_type''))"
  using assms
  by (simp add: event_name_def qualifier_def dict_get_def py_format_def str_add_def Let_def
           split: option.splits)

lemma json_to_event_name:
  assumes "event_name repr d = Inr name"
  shows "json_to_event t Event repr (JObj d) sid =
           ((case try_models (get_event_model t name) (JObj d) of
               Some ev \<Rightarrow> Some ev | None \<Rightarrow> parse_obj Event (JObj d)), [])"
proof -
  obtain v where "map_of d ''post_type'' = Some v"
    using assms by (cases "map_of d ''post_type''") (auto simp: event_name_def)
  then show ?thesis
    by (simp add: json_to_event_def assms split: option.splits)
qed

lemma event_name_not_str:
  assumes "map_of d ''post_type'' = Some v" and "\<not> is_str v"
  shows "event_name repr d = Inl TypeError"
  using assms by (cases v) (simp_all add: event_name_def str_add_def Let_def)

lemma json_to_event_not_str:
  assumes "map_of d ''post_type'' = Some v" and "\<not> is_str v"
  shows "json_to_event t Event repr (JObj d) sid = (None, [])"
  using assms by (simp add: json_to_event_def event_name_not_str [OF assms])

lemma sample_model_event:
  "model_event sample_Event = []"
  "model_event sample_MessageEvent = ''message''"
  "model_event sample_PrivateMessageEvent = ''message.private''"
  "model_event sample_LifecycleMetaEvent = ''meta_event.lifecycle''"
  by (simp_all add: sample_Event_def sample_MessageEvent_def sample_PrivateMessageEvent_def
        sample_LifecycleMetaEvent_def)

lemma sample_models_message:
  "sample_models (key_path ''message'') = Some sample_MessageEvent"
  by (simp add: sample_models_def init_event_models_def trie_set_def key_path_def sample_model_event)

lemma sample_models_private:
  "sample_models (key_path ''message.private'') = Some sample_PrivateMessageEvent"
  by (simp add: sample_models_def init_event_models_def trie_set_def key_path_def sample_model_event)

lemma sample_candidates:
  "get_event_model sample_models ''message.private'' = [sample_PrivateMessageEvent, sample_MessageEvent]"
  by (simp add: get_event_model_def prefixes_def prefixes_path_def sample_models_def
      init_event_models_def trie_set_def sample_model_event)

lemma first_accepting:
  "(case try_models ms j of Some ev \<Rightarrow> Some ev | None \<Rightarrow> b) =
   (case find (\<lambda>m. parse_obj m j \<noteq> None) ms of Some m \<Rightarrow> parse_obj m j | None \<Rightarrow> b)"
  by (induction ms) (auto split: option.splits)


subsection \<open>Order of the candidate list\<close>

text \<open>
  Claim C3. The registry is keyed by dot-separated paths, so "prefix" is read on the
  paths: the segments of \<open>p1\<close> are a strict prefix of the segments of \<open>p2\<close>. When a
  model \<open>m1\<close> is registered at \<open>p1\<close> and a model \<open>m2\<close> at \<open>p2\<close>, the candidate list
  for the name \<open>p2\<close> starts with \<open>m2\<close> and holds \<open>m1\<close> further on; for a payload
  with that name which \<open>m1\<close> accepts, \<^const>\<open>json_to_event\<close> answers from the candidates
  up to \<open>m1\<close>, so the base model is not consulted before \<open>m1\<close>. The whole list is
  the registered prefixes of the path of \<open>p2\<close>, by decreasing length.
\<close>

theorem candidates_most_specific_first:
  assumes "strict_prefix (key_path p1) (key_path p2)"
    and "event_models (key_path p1) = Some m1"
    and "event_models (key_path p2) = Some m2"
  shows "(\<exists>B A. get_event_model event_models p2 = m2 # B @ m1 # A \<and>
            (\<forall>d sid. event_name repr d = Inr p2 \<and> parse_obj m1 (JObj d) \<noteq> None \<longrightarrow>
               fst (json_to_event event_models Event repr (JObj d) sid)
                 = try_models (m2 # B @ [m1]) (JObj d) \<and>
               try_models (m2 # B @ [m1]) (JObj d) \<noteq> None))
       \<and> get_event_model event_models p2 =
           concat (map (\<lambda>k. case event_models (take k (key_path p2)) of None \<Rightarrow> [] | Some v \<Rightarrow> [v])
                       (rev [0..<Suc (length (key_path p2))]))"
proof
  have "\<exists>B A. rev (prefixes_path event_models (key_path p2)) = m2 # B @ m1 # A"
    using assms by (rule prefixes_path_order)
  then obtain B A where BA: "get_event_model event_models p2 = m2 # B @ m1 # A"
    by (auto simp: get_event_model_def prefixes_def key_path_def)
  have "fst (json_to_event event_models Event repr (JObj d) sid) = try_models (m2 # B @ [m1]) (JObj d)
        \<and> try_models (m2 # B @ [m1]) (JObj d) \<noteq> None"
    if h: "event_name repr d = Inr p2" "parse_obj m1 (JObj d) \<noteq> None" for d sid
  proof -
    have ne: "try_models ((m2 # B) @ [m1]) (JObj d) \<noteq> None"
      using h(2) by (rule try_models_accepting)
    have "get_event_model event_models p2 = (m2 # B @ [m1]) @ A" using BA by simp
    then have "try_models (get_event_model event_models p2) (JObj d) =
        (case try_models (m2 # B @ [m1]) (JObj d) of Some ev \<Rightarrow> Some ev | None \<Rightarrow> try_models A (JObj d))"
      by (simp only: try_models_append)
    moreover obtain ev where "try_models (m2 # B @ [m1]) (JObj d) = Some ev"
      using ne by auto
    ultimately show ?thesis by (simp add: json_to_event_name[OF h(1)])
  qed
  then show "\<exists>B A. get_event_model event_models p2 = m2 # B @ m1 # A \<and>
            (\<forall>d sid. event_name repr d = Inr p2 \<and> parse_obj m1 (JObj d) \<noteq> None \<longrightarrow>
               fst (json_to_event event_models Event repr (JObj d) sid)
                 = try_models (m2 # B @ [m1]) (JObj d) \<and>
               try_models (m2 # B @ [m1]) (JObj d) \<noteq> None)"
    using BA by blast
next
  show "get_event_model event_models p2 =
           concat (map (\<lambda>k. case event_models (take k (key_path p2)) of None \<Rightarrow> [] | Some v \<Rightarrow> [v])
                       (rev [0..<Suc (length (key_path p2))]))"
    by (simp only: get_event_model_def prefixes_def key_path_def rev_prefixes_path)
qed

text \<open>
  With the three sample classes registered, \<^verbatim>\<open>message\<close> is a strict prefix of
  \<^verbatim>\<open>message.private\<close> and the candidates for the latter are the private-message
  class, then the message class.
\<close>

theorem candidates_most_specific_first_witness:
  "strict_prefix (key_path ''message'') (key_path ''message.private'')
   \<and> sample_models (key_path ''message'') = Some sample_MessageEvent
   \<and> sample_models (key_path ''message.private'') = Some sample_PrivateMessageEvent
   \<and> get_event_model sample_models ''message.private'' = [sample_PrivateMessageEvent, sample_MessageEvent]"
proof -
  have h1: "strict_prefix (key_path ''message'') (key_path ''message.private'')"
    by (simp add: key_path_def)
  note h2 = sample_models_message and h3 = sample_models_private
  have "get_event_model sample_models ''message.private'' =
           concat (map (\<lambda>k. case sample_models (take k (key_path ''message.private'')) of None \<Rightarrow> [] | Some v \<Rightarrow> [v])
                       (rev [0..<Suc (length (key_path ''message.private''))]))"
    using candidates_most_specific_first [OF h1 h2 h3] by blast
  then have "get_event_model sample_models ''message.private'' = [sample_PrivateMessageEvent, sample_MessageEvent]"
    by (simp add: key_path_def sample_models_def init_event_models_def trie_set_def sample_model_event)
  with h1 h2 h3 show ?thesis by blast
qed

subsection \<open>The event name of a payload\<close>

text \<open>
  Claim C4, as amended. For every payload whose \<^verbatim>\<open>post_type\<close> is a string \<open>p\<close>, the
  name handed to the registry is \<open>p\<close>, followed by a dot and the text of the field
  \<^verbatim>\<open>{p}_type\<close> when that field is present and true in Python's sense (not
  \<^verbatim>\<open>None\<close>, \<^verbatim>\<open>false\<close>, \<^verbatim>\<open>0\<close>, nor an empty string, list or object), followed by
  a dot and the text of \<^verbatim>\<open>sub_type\<close> when that field is present and true in the same
  sense; an absent or false qualifier adds nothing. For every payload whose
  \<^verbatim>\<open>post_type\<close> is present and is not a string, no name is computed: line 365 raises
  \<^verbatim>\<open>TypeError\<close>.
\<close>

theorem event_name_by_post_type:
  "(map_of d ''post_type'' = Some (JStr p) \<longrightarrow>
      event_name repr d =
        Inr (p @ qualifier repr (map_of d (p @ ''_type'')) @ qualifier repr (map_of d ''sub_type'')))
   \<and> (map_of d ''post_type'' = Some v \<and> \<not> is_str v \<longrightarrow> event_name repr d = Inl TypeError)"
  using event_name_str [of d p repr] event_name_not_str [of d v repr] by blast

text \<open>
  The sample payload has \<^verbatim>\<open>post_type = "message"\<close>, \<^verbatim>\<open>message_type = "private"\<close>
  and an empty \<^verbatim>\<open>sub_type\<close>: its name is \<^verbatim>\<open>message.private\<close>, with no trailing dot.
  The payload \<^verbatim>\<open>{"post_type": null}\<close> has no name.
\<close>

theorem event_name_by_post_type_witness:
  "map_of sample_payload ''post_type'' = Some (JStr ''message'')
   \<and> event_name sample_repr sample_payload = Inr ''message.private''
   \<and> map_of [(''post_type'', JNull)] ''post_type'' = Some JNull
   \<and> \<not> is_str JNull
   \<and> event_name sample_repr [(''post_type'', JNull)] = Inl TypeError"
  using event_name_by_post_type [of sample_payload "''message''" sample_repr JNull]
    event_name_by_post_type [of "[(''post_type'', JNull)]" "[]" sample_repr JNull]
  by (simp add: sample_payload_def qualifier_def py_format_def)

text \<open>
  Claim C4 as it is written covers every payload that carries \<^verbatim>\<open>post_type\<close>, and lets
  every qualifier that is present and not empty add its segment. For the payload
  \<^verbatim>\<open>{"post_type": 1}\<close> no name is computed: line 365 adds a number and a string, which
  raises \<^verbatim>\<open>TypeError\<close>. And in the payload
  \<^verbatim>\<open>{"post_type": "message", "message_type": 0, "sub_type": false}\<close> both qualifiers
  are present and neither is empty, yet the name is \<^verbatim>\<open>message\<close>: lines 362 and 364
  test the truth value of the field.
\<close>

theorem event_name_numeric_fields:
  "map_of [(''post_type'', JNum 1)] ''post_type'' = Some (JNum 1)
   \<and> event_name sample_repr [(''post_type'', JNum 1)] = Inl TypeError
   \<and> map_of falsy_payload ''post_type'' = Some (JStr ''message'')
   \<and> map_of falsy_payload ''message_type'' = Some (JNum 0)
   \<and> map_of falsy_payload ''sub_type'' = Some (JBool False)
   \<and> event_name sample_repr falsy_payload = Inr ''message''"
  by (simp add: event_name_def dict_get_def str_add_def falsy_payload_def py_format_def)

subsection \<open>Parsing with fallback\<close>

text \<open>
  Claim C5, as amended. For every payload whose \<^verbatim>\<open>post_type\<close> is a string,
  \<^const>\<open>json_to_event\<close> returns (it raises nothing) what the first candidate that
  accepts the payload builds, the candidates being taken in the order of
  \<^const>\<open>get_event_model\<close>; when no candidate accepts, it returns what the base model
  builds; and when the base model fails too it returns no event. For every payload
  whose \<^verbatim>\<open>post_type\<close> is present and is not a string it returns no event, whatever the
  registry and the base model are: neither is consulted. In both cases nothing is
  added to the result store.
\<close>

theorem json_to_event_by_post_type:
  "(map_of d ''post_type'' = Some (JStr p) \<longrightarrow>
      (\<exists>name. event_name repr d = Inr name \<and>
         json_to_event event_models Event repr (JObj d) sid =
           ((case find (\<lambda>m. parse_obj m (JObj d) \<noteq> None) (get_event_model event_models name) of
               Some m \<Rightarrow> parse_obj m (JObj d)
             | None \<Rightarrow> parse_obj Event (JObj d)), [])))
   \<and> (map_of d ''post_type'' = Some v \<and> \<not> is_str v \<longrightarrow>
        json_to_event event_models Event repr (JObj d) sid = (None, []))"
proof -
  have "\<exists>name. event_name repr d = Inr name \<and>
         json_to_event event_models Event repr (JObj d) sid =
           ((case find (\<lambda>m. parse_obj m (JObj d) \<noteq> None) (get_event_model event_models name) of
               Some m \<Rightarrow> parse_obj m (JObj d)
             | None \<Rightarrow> parse_obj Event (JObj d)), [])"
    if h: "map_of d ''post_type'' = Some (JStr p)"
  proof -
    obtain name where n: "event_name repr d = Inr name"
      using event_name_str [OF h] by blast
    show ?thesis
      using n by (simp add: json_to_event_name [OF n] first_accepting)
  qed
  then show ?thesis
    using json_to_event_not_str [of d v event_models Event repr sid] by blast
qed

text \<open>
  The sample payload lacks \<^verbatim>\<open>user_id\<close>, so the private-message class rejects it and
  the message class, next in the list, builds the event. The payload
  \<^verbatim>\<open>{"post_type": null}\<close> gives no event, although the sample base class accepts
  every payload.
\<close>

theorem json_to_event_by_post_type_witness:
  "map_of sample_payload ''post_type'' = Some (JStr ''message'')
   \<and> json_to_event sample_models sample_Event sample_repr (JObj sample_payload) None
       = (Some (sample_event ''MessageEvent'' (JObj sample_payload)), [])
   \<and> map_of [(''post_type'', JNull)] ''post_type'' = Some JNull
   \<and> \<not> is_str JNull
   \<and> json_to_event sample_models sample_Event sample_repr (JObj [(''post_type'', JNull)]) None
       = (None, [])"
proof -
  have h: "map_of sample_payload ''post_type'' = Some (JStr ''message'')"
    by (simp add: sample_payload_def)
  have n: "event_name sample_repr sample_payload = Inr ''message.private''"
    using event_name_str [OF h, of sample_repr]
    by (simp add: sample_payload_def qualifier_def py_format_def)
  have p1: "parse_obj sample_PrivateMessageEvent (JObj sample_payload) = None"
    by (simp add: sample_PrivateMessageEvent_def sample_payload_def)
  have p2: "parse_obj sample_MessageEvent (JObj sample_payload)
              = Some (sample_event ''MessageEvent'' (JObj sample_payload))"
    by (simp add: sample_MessageEvent_def sample_payload_def)
  have a: "json_to_event sample_models sample_Event sample_repr (JObj sample_payload) None
             = (Some (sample_event ''MessageEvent'' (JObj sample_payload)), [])"
    using json_to_event_by_post_type
            [of sample_payload "''message''" sample_repr sample_models sample_Event None JNull] h
    by (simp add: n sample_candidates p1 p2)
  have k: "map_of [(''post_type'', JNull)] ''post_type'' = Some JNull" "\<not> is_str JNull"
    by simp_all
  have b: "json_to_event sample_models sample_Event sample_repr (JObj [(''post_type'', JNull)]) None
             = (None, [])"
    using json_to_event_by_post_type
            [of "[(''post_type'', JNull)]" "[]" sample_repr sample_models sample_Event None JNull] k
    by blast
  show ?thesis using h a k b by blast
qed

text \<open>
  Claim C5 as it is written covers every payload that carries \<^verbatim>\<open>post_type\<close>. The
  payload \<^verbatim>\<open>{"post_type": 1, "time": 0, "self_id": 1}\<close> carries it and the base model
  accepts the payload, yet no candidate is looked up, the base model is not tried and
  no event is returned: the \<^verbatim>\<open>TypeError\<close> of line 365 is caught at line 376.
\<close>

theorem json_to_event_numeric_post_type:
  "map_of numeric_payload ''post_type'' \<noteq> None
   \<and> parse_obj sample_Event (JObj numeric_payload) \<noteq> None
   \<and> json_to_event sample_models sample_Event sample_repr (JObj numeric_payload) None = (None, [])"
  by (simp add: numeric_payload_def json_to_event_def event_name_def dict_get_def str_add_def
      sample_Event_def)

section \<open>The webhook handler: status codes\<close>

subsection \<open>Auxiliary facts\<close>

lemma handle_http_rejected:
  assumes "http_rejection e cfg request = Some code"
  shows "\<exists>body. handle_http e cfg st request = (Inr \<lparr>status_code = code, resp_content = body\<rparr>, st)"
  using assms
  by (auto simp: http_rejection_def handle_http_def check_signature_def check_access_token_def
        Let_def truthy_str_def split: if_splits option.splits)

lemma handle_http_checks_pass:
  assumes "http_rejection e cfg request = None"
  shows "truthy_str (headers request ''x-self-id'')"
    and "check_signature e cfg request = None"
    and "check_access_token e cfg request = None"
  using assms
  by (auto simp: http_rejection_def check_signature_def check_access_token_def
        Let_def truthy_str_def split: if_splits option.splits)

lemma handle_http_accepted:
  assumes "http_rejection e cfg request = None"
    and "content request = None \<or> (\<exists>data j. content request = Some data \<and> json_loads e data = Some j)"
  shows "\<exists>st'. handle_http e cfg st request = (Inr \<lparr>status_code = 204, resp_content = None\<rparr>, st')"
  using assms(2) handle_http_checks_pass [OF assms(1)]
  by (auto simp: handle_http_def Let_def split: option.splits)

lemma handle_http_undecodable:
  assumes "http_rejection e cfg request = None"
    and "content request = Some data" "json_loads e data = None"
  shows "handle_http e cfg st request = (Inl JSONDecodeError, st)"
  using assms(2,3) handle_http_checks_pass [OF assms(1)]
  by (simp add: handle_http_def Let_def)

lemma sample_env_fields:
  "env_models (sample_env_with f a) = sample_models"
  "env_Event (sample_env_with f a) = sample_Event"
  "env_str (sample_env_with f a) = sample_repr"
  "json_loads (sample_env_with f a) = sample_loads"
  "get_auth_bearer (sample_env_with f a) = sample_bearer"
  "handle_api_result (sample_env_with f a) = sample_handle_api_result"
  "hmac_sha1_hexdigest (sample_env_with f a) s b = ''da39a3ee''"
  "is_forward_driver (sample_env_with f a) = f"
  "driver_request (sample_env_with f a) rq = Inr a"
  "get_seq (sample_env_with f a) = 1"
  "ws_send (sample_env_with f a) w t = None"
  "fetch (sample_env_with f a) s n tm = Inl (NetworkError ''WebSocket API call timeout'')"
  by (simp_all add: sample_env_with_def)

lemma post_fields:
  "headers (post hs body) = map_of hs"
  "content (post hs body) = body"
  by (simp_all add: post_def)

lemma sample_config_fields:
  "onebot_secret (sample_config s t) = s"
  "onebot_access_token (sample_config s t) = t"
  "api_root (sample_config s t) = [''1'' \<mapsto> ''http://127.0.0.1:5700'']"
  "api_timeout (sample_config s t) = Some 30"
  by (simp_all add: sample_config_def)

lemma sample_loads_message: "sample_loads message_text = Some (JObj sample_payload)"
  by (simp add: sample_loads_def)

lemma sample_loads_brace: "sample_loads ''{'' = None"
  by (simp add: sample_loads_def message_text_def connect_text_def failed_text_def ok_text_def)

lemma sample_message_event:
  "json_to_event sample_models sample_Event sample_repr (JObj sample_payload) sid
     = (Some (sample_event ''MessageEvent'' (JObj sample_payload)), [])"
proof -
  have h: "map_of sample_payload ''post_type'' = Some (JStr ''message'')"
    by (simp add: sample_payload_def)
  have n: "event_name sample_repr sample_payload = Inr ''message.private''"
    using event_name_str [OF h, of sample_repr]
    by (simp add: sample_payload_def qualifier_def py_format_def)
  have p1: "parse_obj sample_PrivateMessageEvent (JObj sample_payload) = None"
    by (simp add: sample_PrivateMessageEvent_def sample_payload_def)
  have p2: "parse_obj sample_MessageEvent (JObj sample_payload)
              = Some (sample_event ''MessageEvent'' (JObj sample_payload))"
    by (simp add: sample_MessageEvent_def sample_payload_def)
  show ?thesis
    by (simp add: json_to_event_name [OF n] sample_candidates p1 p2)
qed

lemmas webhook_eval =
  http_rejection_def handle_http_def check_signature_def check_access_token_def truthy_str_def
  sample_env_def sample_env_fields post_fields sample_config_fields sample_bearer_def Let_def

subsection \<open>The status of every request\<close>

text \<open>
  Claim C8, as amended. The response status of a webhook request follows the checks in
  the order of \<^const>\<open>http_rejection\<close>: 400 when the identity header is missing;
  otherwise, with a secret configured, 401 when the signature header is missing, else
  400 when the body is missing, else 403 when the signature is invalid; otherwise 403
  when a bearer token is configured and the presented token is missing or does not
  match. A rejected request leaves the adapter as it was. When all configured checks
  pass and the body is missing or decodes as JSON, the status is 204.
\<close>

theorem webhook_status:
  "(\<forall>code. http_rejection e cfg request = Some code \<longrightarrow>
      (\<exists>body. handle_http e cfg st request = (Inr \<lparr>status_code = code, resp_content = body\<rparr>, st)))
   \<and> (http_rejection e cfg request = None \<and>
        (content request = None \<or> (\<exists>data j. content request = Some data \<and> json_loads e data = Some j))
      \<longrightarrow> (\<exists>st'. handle_http e cfg st request = (Inr \<lparr>status_code = 204, resp_content = None\<rparr>, st')))"
  using handle_http_rejected handle_http_accepted by blast

text \<open>
  With a secret and a token configured: no identity header gives 400; a valid signature
  without a token gives 403; a valid signature and the right token give 204.
\<close>

theorem webhook_status_witness:
  "http_rejection sample_env (sample_config (Some ''s'') (Some ''t'')) (post [] None) = Some 400
   \<and> fst (handle_http sample_env (sample_config (Some ''s'') (Some ''t'')) empty_adapter (post [] None))
       = Inr \<lparr>status_code = 400, resp_content = Some ''Missing X-Self-ID Header''\<rparr>
   \<and> http_rejection sample_env (sample_config (Some ''s'') (Some ''t''))
        (post [(''x-self-id'', ''1''), (''x-signature'', ''sha1=da39a3ee'')] (Some message_text)) = Some 403
   \<and> fst (handle_http sample_env (sample_config (Some ''s'') (Some ''t'')) empty_adapter
        (post [(''x-self-id'', ''1''), (''x-signature'', ''sha1=da39a3ee'')] (Some message_text)))
       = Inr \<lparr>status_code = 403, resp_content = Some ''Missing Authorization Header''\<rparr>
   \<and> http_rejection sample_env (sample_config (Some ''s'') (Some ''t''))
        (post [(''x-self-id'', ''1''), (''x-signature'', ''sha1=da39a3ee''),
               (''authorization'', ''Bearer t'')] (Some message_text)) = None
   \<and> sample_loads message_text = Some (JObj sample_payload)
   \<and> fst (handle_http sample_env (sample_config (Some ''s'') (Some ''t'')) empty_adapter
        (post [(''x-self-id'', ''1''), (''x-signature'', ''sha1=da39a3ee''),
               (''authorization'', ''Bearer t'')] (Some message_text)))
       = Inr \<lparr>status_code = 204, resp_content = None\<rparr>"
proof -
  let ?cfg = "sample_config (Some ''s'') (Some ''t'')"
  let ?r1 = "post [] None"
  let ?r2 = "post [(''x-self-id'', ''1''), (''x-signature'', ''sha1=da39a3ee'')] (Some message_text)"
  let ?r3 = "post [(''x-self-id'', ''1''), (''x-signature'', ''sha1=da39a3ee''),
                   (''authorization'', ''Bearer t'')] (Some message_text)"
  have a1: "http_rejection sample_env ?cfg ?r1 = Some 400"
    by (simp add: webhook_eval)
  have a2: "http_rejection sample_env ?cfg ?r2 = Some 403"
    by (simp add: webhook_eval)
  have a3: "http_rejection sample_env ?cfg ?r3 = None"
    by (simp add: webhook_eval)
  have l: "content ?r3 = Some message_text" "json_loads sample_env message_text = Some (JObj sample_payload)"
    by (simp_all add: post_fields sample_env_def sample_env_fields sample_loads_message)
  have b1: "\<exists>body. handle_http sample_env ?cfg empty_adapter ?r1
              = (Inr \<lparr>status_code = 400, resp_content = body\<rparr>, empty_adapter)"
    using webhook_status [of sample_env ?cfg ?r1 empty_adapter] a1 by blast
  have b2: "\<exists>body. handle_http sample_env ?cfg empty_adapter ?r2
              = (Inr \<lparr>status_code = 403, resp_content = body\<rparr>, empty_adapter)"
    using webhook_status [of sample_env ?cfg ?r2 empty_adapter] a2 by blast
  have b3: "\<exists>st'. handle_http sample_env ?cfg empty_adapter ?r3
              = (Inr \<lparr>status_code = 204, resp_content = None\<rparr>, st')"
    using webhook_status [of sample_env ?cfg ?r3 empty_adapter] a3 l by blast
  have c1: "resp_content (projr (fst (handle_http sample_env ?cfg empty_adapter ?r1)))
              = Some ''Missing X-Self-ID Header''"
    by (simp add: webhook_eval)
  have c2: "resp_content (projr (fst (handle_http sample_env ?cfg empty_adapter ?r2)))
              = Some ''Missing Authorization Header''"
    by (simp add: webhook_eval)
  from b1 c1 have d1: "fst (handle_http sample_env ?cfg empty_adapter ?r1)
       = Inr \<lparr>status_code = 400, resp_content = Some ''Missing X-Self-ID Header''\<rparr>"
    by auto
  from b2 c2 have d2: "fst (handle_http sample_env ?cfg empty_adapter ?r2)
       = Inr \<lparr>status_code = 403, resp_content = Some ''Missing Authorization Header''\<rparr>"
    by auto
  from b3 have d3: "fst (handle_http sample_env ?cfg empty_adapter ?r3)
       = Inr \<lparr>status_code = 204, resp_content = None\<rparr>"
    by auto
  show ?thesis
    using a1 a2 a3 d1 d2 d3 sample_loads_message by blast
qed

text \<open>
  Claim C8 as it is written gives 400 whenever a signature is required and the body is
  missing. A request with an identity header, no signature header and no body, sent
  to an adapter with a secret, is answered 401: the signature header is looked at
  first (lines 224 and 228).
\<close>

theorem webhook_missing_signature_and_body:
  "truthy_str (headers (post [(''x-self-id'', ''1'')] None) ''x-self-id'')
   \<and> truthy_str (onebot_secret (sample_config (Some ''s'') None))
   \<and> content (post [(''x-self-id'', ''1'')] None) = None
   \<and> fst (handle_http sample_env (sample_config (Some ''s'') None) empty_adapter
             (post [(''x-self-id'', ''1'')] None))
       = Inr \<lparr>status_code = 401, resp_content = Some ''Missing Signature''\<rparr>"
  by (simp add: webhook_eval)

subsection \<open>A body that is not JSON\<close>

text \<open>
  Claim C2 says that once the checks pass the handler returns 204 whatever the body
  holds. For a request that passes every check and whose body is the text \<^verbatim>\<open>{\<close>,
  \<^verbatim>\<open>json.loads\<close> on line 158 raises and the exception leaves the handler: no
  response is returned.
\<close>

theorem webhook_malformed_body_raises:
  "http_rejection sample_env (sample_config None None) (post [(''x-self-id'', ''1'')] (Some ''{'')) = None
   \<and> handle_http sample_env (sample_config None None) empty_adapter
         (post [(''x-self-id'', ''1'')] (Some ''{''))
       = (Inl JSONDecodeError, empty_adapter)"
  by (simp add: webhook_eval sample_loads_brace)

section \<open>Calling an API: the errors\<close>

subsection \<open>Auxiliary facts\<close>

lemma as_network_error_cases:
  "as_network_error (Inr v) = Inr v"
  "as_network_error (Inl (NetworkError m)) = Inl (NetworkError m)"
  "as_network_error (Inl (ValueError m)) = Inl (NetworkError ''HTTP request failed'')"
  "as_network_error (Inl JSONDecodeError) = Inl (NetworkError ''HTTP request failed'')"
  by (simp_all add: as_network_error_def)


lemma call_api_http:
  assumes "connections st (self_id b) = None" and "is_forward_driver e"
    and "api_root cfg (self_id b) = Some base" and "base \<noteq> []"
    and "driver_request e (api_request e cfg base api data) = Inr response"
  shows "call_api e cfg st b api data =
           as_network_error
             (if 200 \<le> status_code response \<and> status_code response < 300 then
                (if \<not> truthy_str (resp_content response) then Inl (ValueError ''Empty response'')
                 else
                   (case json_loads e (case resp_content response of Some c \<Rightarrow> c | None \<Rightarrow> []) of
                      None \<Rightarrow> Inl JSONDecodeError
                    | Some result \<Rightarrow> handle_api_result e result))
              else
                Inl (NetworkError (''HTTP request received unexpected status code: ''
                                   @ env_str e (JNum (status_code response)))))"
  using assms by (simp add: call_api_def truthy_str_def)

text \<open>The texts that the sample \<^verbatim>\<open>json.loads\<close> decodes.\<close>

lemma sample_loads_ok: "sample_loads ok_text = Some (JObj ok_result)"
  by (simp add: sample_loads_def message_text_def connect_text_def failed_text_def ok_text_def quoted_def)

lemma sample_loads_failed: "sample_loads failed_text = Some (JObj failed_result)"
  by (simp add: sample_loads_def message_text_def connect_text_def failed_text_def quoted_def)

lemma sample_loads_connect: "sample_loads connect_text = Some (JObj connect_payload)"
  by (simp add: sample_loads_def message_text_def connect_text_def quoted_def)

lemmas call_api_eval =
  call_api_def truthy_str_def sample_env_fields sample_config_fields empty_adapter_def

subsection \<open>No channel to the peer\<close>




subsection \<open>The HTTP path\<close>

text \<open>
  Claim C7, as amended. On the HTTP path (no live connection, a driver that can send
  requests, a non-empty root) with a request that the driver answers: a status outside
  200..299 fails with \<^verbatim>\<open>NetworkError\<close>, and so do a 2xx response with a missing or
  empty body and a 2xx response whose body \<^verbatim>\<open>json.loads\<close> rejects; a 2xx response
  whose body decodes returns what \<^verbatim>\<open>_handle_api_result\<close> returns on the decoded
  body.
\<close>

theorem http_fallback_result:
  assumes "connections st (self_id b) = None" and "is_forward_driver e"
    and "api_root cfg (self_id b) = Some base" and "base \<noteq> []"
    and "driver_request e (api_request e cfg base api data) = Inr response"
  shows "(\<not> (200 \<le> status_code response \<and> status_code response < 300) \<longrightarrow>
            call_api e cfg st b api data
              = Inl (NetworkError (''HTTP request received unexpected status code: ''
                                   @ env_str e (JNum (status_code response)))))
       \<and> (200 \<le> status_code response \<and> status_code response < 300
            \<and> (resp_content response = None \<or> resp_content response = Some []) \<longrightarrow>
            call_api e cfg st b api data = Inl (NetworkError ''HTTP request failed''))
       \<and> (\<forall>body. 200 \<le> status_code response \<and> status_code response < 300
            \<and> resp_content response = Some body \<and> body \<noteq> [] \<and> json_loads e body = None \<longrightarrow>
            call_api e cfg st b api data = Inl (NetworkError ''HTTP request failed''))
       \<and> (\<forall>body result v. 200 \<le> status_code response \<and> status_code response < 300
            \<and> resp_content response = Some body \<and> body \<noteq> [] \<and> json_loads e body = Some result
            \<and> handle_api_result e result = Inr v \<longrightarrow>
            call_api e cfg st b api data = Inr v)"
  unfolding call_api_http [OF assms]
  by (auto simp: as_network_error_cases truthy_str_def)

text \<open>The theorem at three answers of the driver: 404, 200 with an empty body, 200 with a result.\<close>

theorem http_fallback_result_witness:
  "call_api (sample_env_with True \<lparr>status_code = 404, resp_content = None\<rparr>)
            (sample_config None None) empty_adapter (Bot ''1'') ''get_status'' []
     = Inl (NetworkError ''HTTP request received unexpected status code: 404'')
   \<and> call_api (sample_env_with True \<lparr>status_code = 200, resp_content = Some []\<rparr>)
            (sample_config None None) empty_adapter (Bot ''1'') ''get_status'' []
     = Inl (NetworkError ''HTTP request failed'')
   \<and> call_api (sample_env_with True \<lparr>status_code = 200, resp_content = Some ok_text\<rparr>)
            (sample_config None None) empty_adapter (Bot ''1'') ''get_status'' []
     = Inr (JObj [(''online'', JBool True)])"
proof -
  let ?cfg = "sample_config None None"
  let ?b = "Bot ''1''"
  let ?base = "''http://127.0.0.1:5700''"
  have a: "connections empty_adapter (self_id ?b) = None"
    by (simp add: empty_adapter_def)
  have r: "api_root ?cfg (self_id ?b) = Some ?base" "?base \<noteq> []"
    by (simp_all add: sample_config_fields)
  have f: "is_forward_driver (sample_env_with True x)" for x
    by (simp add: sample_env_fields)
  have d: "driver_request (sample_env_with True x) (api_request (sample_env_with True x) ?cfg ?base ''get_status'' []) = Inr x" for x
    by (simp add: sample_env_fields)
  have s: "env_str (sample_env_with True x) (JNum 404) = ''404''" for x
    by (simp add: sample_env_fields sample_repr_def)
  have h: "json_loads (sample_env_with True x) ok_text = Some (JObj ok_result)"
    "handle_api_result (sample_env_with True x) (JObj ok_result) = Inr (JObj [(''online'', JBool True)])" for x
    by (simp_all add: sample_env_fields sample_loads_ok sample_handle_api_result_def ok_result_def dict_get_def)
  have n: "ok_text \<noteq> []"
    by (simp add: ok_text_def)
  have t1: "call_api (sample_env_with True \<lparr>status_code = 404, resp_content = None\<rparr>)
                ?cfg empty_adapter ?b ''get_status'' []
              = Inl (NetworkError ''HTTP request received unexpected status code: 404'')"
    using http_fallback_result [OF a f r d, of "\<lparr>status_code = 404, resp_content = None\<rparr>"] s
    by simp
  have t2: "call_api (sample_env_with True \<lparr>status_code = 200, resp_content = Some []\<rparr>)
                ?cfg empty_adapter ?b ''get_status'' []
              = Inl (NetworkError ''HTTP request failed'')"
    using http_fallback_result [OF a f r d, of "\<lparr>status_code = 200, resp_content = Some []\<rparr>"]
    by simp
  have t3: "call_api (sample_env_with True \<lparr>status_code = 200, resp_content = Some ok_text\<rparr>)
                ?cfg empty_adapter ?b ''get_status'' []
              = Inr (JObj [(''online'', JBool True)])"
    using http_fallback_result [OF a f r d, of "\<lparr>status_code = 200, resp_content = Some ok_text\<rparr>"] h n
    by simp
  show ?thesis using t1 t2 t3 by blast
qed

text \<open>
  Claim C7 as it is written says that every 2xx response with a non-empty body yields
  the parsed body. A 200 response with the body \<^verbatim>\<open>{\<close> makes \<^verbatim>\<open>json.loads\<close> raise
  inside the \<^verbatim>\<open>try\<close> of line 119, and the call fails with \<^verbatim>\<open>NetworkError\<close>.
\<close>

theorem http_fallback_undecodable_body:
  "connections empty_adapter (self_id (Bot ''1'')) = None
   \<and> is_forward_driver (sample_env_with True \<lparr>status_code = 200, resp_content = Some ''{''\<rparr>)
   \<and> api_root (sample_config None None) (self_id (Bot ''1'')) = Some ''http://127.0.0.1:5700''
   \<and> call_api (sample_env_with True \<lparr>status_code = 200, resp_content = Some ''{''\<rparr>)
               (sample_config None None) empty_adapter (Bot ''1'') ''get_status'' []
       = Inl (NetworkError ''HTTP request failed'')"
  by (simp add: call_api_eval sample_loads_brace as_network_error_cases)

section \<open>The reverse WebSocket handler: the duplicate check\<close>

subsection \<open>Auxiliary facts\<close>

lemma ws_open_duplicate:
  assumes "headers (ws_request ws) ''x-self-id'' = Some sid" and "sid \<noteq> []"
    and "sid \<in> dom (bots st)"
  shows "ws_open e cfg st ws = (Some (1008, ''Duplicate X-Self-ID''), st)"
  using assms by (simp add: ws_open_def truthy_str_def Let_def)

lemma ws_open_duplicate_iff:
  assumes "headers (ws_request ws) ''x-self-id'' = Some sid" and "sid \<noteq> []"
  shows "fst (ws_open e cfg st ws) = Some (1008, ''Duplicate X-Self-ID'') \<longleftrightarrow> sid \<in> dom (bots st)"
  using assms
  by (auto simp: ws_open_def truthy_str_def Let_def check_access_token_def
           split: option.splits if_splits)

lemma handle_http_registers:
  assumes "http_rejection e cfg request = None"
    and "headers request ''x-self-id'' = Some sid"
    and "content request = Some data" and "json_loads e data = Some j"
    and "fst (json_to_event (env_models e) (env_Event e) (env_str e) j None) = Some ev"
  shows "sid \<in> dom (bots (snd (handle_http e cfg st request)))"
    and "connections (snd (handle_http e cfg st request)) = connections st"
  using assms(2-) handle_http_checks_pass [OF assms(1)]
  by (auto simp: handle_http_def Let_def create_task_def bot_connect_def split: option.splits)

subsection \<open>A bot registered by the webhook\<close>

text \<open>
  Claim C10. A handshake on the reverse endpoint that presents the identity \<open>sid\<close> is
  closed as a duplicate exactly when \<open>sid\<close> is a key of the bot table, whatever the
  connection table holds. A webhook request of \<open>sid\<close> that passes the checks and
  carries an event registers \<open>sid\<close> in the bot table and stores no connection; in
  the state it leaves, with no connection for \<open>sid\<close>, the handshake is closed with
  code 1008 and the state is unchanged.
\<close>

theorem reverse_ws_checks_bot_table:
  assumes "headers (ws_request ws) ''x-self-id'' = Some sid"
    and "http_rejection e cfg request = None"
    and "headers request ''x-self-id'' = Some sid"
    and "content request = Some data" and "json_loads e data = Some j"
    and "fst (json_to_event (env_models e) (env_Event e) (env_str e) j None) = Some ev"
    and "connections st sid = None"
  shows "(\<forall>st0. fst (ws_open e cfg st0 ws) = Some (1008, ''Duplicate X-Self-ID'')
                  \<longleftrightarrow> sid \<in> dom (bots st0))
       \<and> sid \<in> dom (bots (snd (handle_http e cfg st request)))
       \<and> connections (snd (handle_http e cfg st request)) sid = None
       \<and> ws_open e cfg (snd (handle_http e cfg st request)) ws
           = (Some (1008, ''Duplicate X-Self-ID''), snd (handle_http e cfg st request))"
proof -
  have n: "sid \<noteq> []"
    using handle_http_checks_pass(1) [OF assms(2)] assms(3) by (simp add: truthy_str_def)
  have b: "sid \<in> dom (bots (snd (handle_http e cfg st request)))"
    by (rule handle_http_registers(1) [OF assms(2-6)])
  have c: "connections (snd (handle_http e cfg st request)) sid = None"
    using handle_http_registers(2) [OF assms(2-6), of st] assms(7) by simp
  show ?thesis
    using ws_open_duplicate_iff [OF assms(1) n] ws_open_duplicate [OF assms(1) n b] b c
    by blast
qed

text \<open>
  The theorem at the sample webhook request of the peer \<^verbatim>\<open>1\<close>, sent to an adapter that
  knows no bot, where the same handshake would have been accepted.
\<close>

theorem reverse_ws_checks_bot_table_witness:
  "http_rejection sample_env (sample_config None None)
       (post [(''x-self-id'', ''1'')] (Some message_text)) = None
   \<and> connections empty_adapter ''1'' = None
   \<and> headers (ws_request reverse_socket) ''x-self-id'' = Some ''1''
   \<and> connections (snd (handle_http sample_env (sample_config None None) empty_adapter
                          (post [(''x-self-id'', ''1'')] (Some message_text)))) ''1'' = None
   \<and> ws_open sample_env (sample_config None None)
        (snd (handle_http sample_env (sample_config None None) empty_adapter
                (post [(''x-self-id'', ''1'')] (Some message_text))))
        reverse_socket
       = (Some (1008, ''Duplicate X-Self-ID''),
          snd (handle_http sample_env (sample_config None None) empty_adapter
                 (post [(''x-self-id'', ''1'')] (Some message_text))))
   \<and> fst (ws_open sample_env (sample_config None None) empty_adapter reverse_socket) = None"
proof -
  let ?cfg = "sample_config None None"
  let ?rq = "post [(''x-self-id'', ''1'')] (Some message_text)"
  have a1: "headers (ws_request reverse_socket) ''x-self-id'' = Some ''1''"
    by (simp add: reverse_socket_def)
  have a2: "http_rejection sample_env ?cfg ?rq = None"
    by (simp add: webhook_eval)
  have a3: "headers ?rq ''x-self-id'' = Some ''1''" "content ?rq = Some message_text"
    by (simp_all add: post_fields)
  have a4: "json_loads sample_env message_text = Some (JObj sample_payload)"
    by (simp add: sample_env_def sample_env_fields sample_loads_message)
  have a5: "fst (json_to_event (env_models sample_env) (env_Event sample_env) (env_str sample_env)
                   (JObj sample_payload) None)
              = Some (sample_event ''MessageEvent'' (JObj sample_payload))"
    by (simp add: sample_env_def sample_env_fields sample_message_event)
  have a6: "connections empty_adapter ''1'' = None"
    by (simp add: empty_adapter_def)
  note t = reverse_ws_checks_bot_table [OF a1 a2 a3 a4 a5 a6]
  have d: "fst (ws_open sample_env ?cfg empty_adapter reverse_socket) = None"
    by (simp add: ws_open_def reverse_socket_def truthy_str_def check_access_token_def
          sample_config_fields empty_adapter_def Let_def)
  show ?thesis using t a1 a2 a6 d by blast
qed

section \<open>The forward link: registering and reconnecting\<close>

subsection \<open>Auxiliary facts\<close>

lemma sample_connect_candidates:
  "get_event_model sample_models ''meta_event.lifecycle.connect'' = [sample_LifecycleMetaEvent]"
  by (simp add: get_event_model_def prefixes_def prefixes_path_def sample_models_def
      init_event_models_def trie_set_def sample_model_event)

lemma sample_connect_event:
  "json_to_event sample_models sample_Event sample_repr (JObj connect_payload) sid
     = (Some connect_event, [])"
proof -
  have h: "map_of connect_payload ''post_type'' = Some (JStr ''meta_event'')"
    by (simp add: connect_payload_def)
  have n: "event_name sample_repr connect_payload = Inr ''meta_event.lifecycle.connect''"
    using event_name_str [OF h, of sample_repr]
    by (simp add: connect_payload_def qualifier_def py_format_def)
  have p: "parse_obj sample_LifecycleMetaEvent (JObj connect_payload) = Some connect_event"
    by (simp add: sample_LifecycleMetaEvent_def connect_payload_def connect_event_def)
  show ?thesis
    by (simp add: json_to_event_name [OF n] sample_connect_candidates p)
qed

lemma reverse_connected_eq:
  "reverse_connected =
     \<lparr>connections = [''1'' \<mapsto> reverse_socket], bots = [''1'' \<mapsto> Bot ''1''],
      dispatched = [], results = []\<rparr>"
  by (simp add: reverse_connected_def ws_open_def reverse_socket_def truthy_str_def
        check_access_token_def sample_config_fields empty_adapter_def bot_connect_def Let_def)

lemma forward_connect_receive:
  "forward_receive sample_env st forward_socket None connect_text
     = (create_task (bot_connect (st\<lparr>connections := (connections st)(''1'' \<mapsto> forward_socket)\<rparr>)
                                 (Bot ''1''))
                    (Bot ''1'') connect_event,
        Receiving forward_socket (Some (Bot ''1'')))"
  by (simp add: forward_receive_def sample_env_def sample_env_fields sample_loads_connect
        sample_connect_event connect_event_def py_format_def sample_repr_def Let_def)

subsection \<open>An identity that is already connected\<close>

text \<open>
  Claim C1 says that a second connection with an identity already present is rejected
  and never replaces the first. The peer \<^verbatim>\<open>1\<close> is connected on the reverse endpoint.
  A forward link then connects and receives the lifecycle event \<^verbatim>\<open>connect\<close> of a
  peer with the same identity: line 320 stores the new socket under \<^verbatim>\<open>1\<close> with no
  test, so the connection table now holds the forward socket in place of the reverse
  one; and when the forward socket fails, the \<^verbatim>\<open>finally\<close> block removes the entry
  of \<^verbatim>\<open>1\<close> altogether.
\<close>

theorem forward_link_replaces_connection:
  "fst (ws_open sample_env (sample_config None None) empty_adapter reverse_socket) = None
   \<and> connections reverse_connected ''1'' = Some reverse_socket
   \<and> forward_socket \<noteq> reverse_socket
   \<and> snd (forward_ws sample_env (reverse_connected, Connecting)
             [Connected forward_socket, Received connect_text])
       = Receiving forward_socket (Some (Bot ''1''))
   \<and> connections (fst (forward_ws sample_env (reverse_connected, Connecting)
                          [Connected forward_socket, Received connect_text])) ''1''
       = Some forward_socket
   \<and> connections (fst (forward_ws sample_env (reverse_connected, Connecting)
                          [Connected forward_socket, Received connect_text, ReceiveFailed])) ''1''
       = None"
proof -
  have a: "fst (ws_open sample_env (sample_config None None) empty_adapter reverse_socket) = None"
    by (simp add: ws_open_def reverse_socket_def truthy_str_def check_access_token_def
          sample_config_fields empty_adapter_def Let_def)
  have b: "connections reverse_connected ''1'' = Some reverse_socket"
    by (simp add: reverse_connected_eq)
  have c: "forward_socket \<noteq> reverse_socket"
    by (simp add: forward_socket_def reverse_socket_def)
  have d: "forward_ws sample_env (reverse_connected, Connecting)
             [Connected forward_socket, Received connect_text]
           = (create_task (bot_connect (reverse_connected
                 \<lparr>connections := (connections reverse_connected)(''1'' \<mapsto> forward_socket)\<rparr>)
                 (Bot ''1'')) (Bot ''1'') connect_event,
              Receiving forward_socket (Some (Bot ''1'')))"
    by (simp add: forward_ws_def forward_connect_receive)
  have f: "forward_ws sample_env (reverse_connected, Connecting)
             [Connected forward_socket, Received connect_text, ReceiveFailed]
           = forward_step sample_env
               (forward_ws sample_env (reverse_connected, Connecting)
                  [Connected forward_socket, Received connect_text]) ReceiveFailed"
    by (simp add: forward_ws_def)
  show ?thesis
    unfolding f unfolding d
    using a b c
    by (simp add: create_task_def bot_connect_def bot_disconnect_def forward_finally_def)
qed

subsection \<open>Reconnecting\<close>

lemma forward_ws_retries:
  "forward_ws e (st, Connecting) (concat (replicate n [ConnectFailed, Woke])) = (st, Connecting)"
  by (induction n) (simp_all add: forward_ws_def)

lemma forward_trace_retries:
  "forward_trace e (st, Connecting) (concat (replicate n [ConnectFailed, Woke]))
     = concat (replicate n [Sleeping RECONNECT_INTERVAL, Connecting])"
  by (induction n) simp_all

lemma forward_receive_state:
  "snd (forward_receive e st ws b data) = Sleeping RECONNECT_INTERVAL
   \<or> (\<exists>b'. snd (forward_receive e st ws b data) = Receiving ws b')"
  by (auto simp: forward_receive_def Let_def split: option.splits prod.splits)

lemma forward_receive_not_stopped: "snd (forward_receive e st ws b data) \<noteq> Stopped"
  using forward_receive_state [of e st ws b data] by auto

lemma forward_receive_sleep:
  "snd (forward_receive e st ws b data) = Sleeping d \<Longrightarrow> d = RECONNECT_INTERVAL"
  using forward_receive_state [of e st ws b data] by auto

lemma forward_step_not_stopped:
  assumes "i \<noteq> Cancelled" and "ls \<noteq> Stopped"
  shows "snd (forward_step e (st, ls) i) \<noteq> Stopped"
  using assms by (cases ls; cases i) (simp_all add: forward_receive_not_stopped)

lemma forward_ws_not_stopped:
  assumes "Cancelled \<notin> set inputs" and "snd s \<noteq> Stopped"
  shows "snd (forward_ws e s inputs) \<noteq> Stopped"
  using assms
proof (induction inputs arbitrary: s)
  case Nil
  then show ?case by (simp add: forward_ws_def)
next
  case (Cons i inputs)
  obtain st ls where s: "s = (st, ls)" by (cases s)
  have "snd (forward_step e s i) \<noteq> Stopped"
    using Cons.prems forward_step_not_stopped [of i ls e st] by (auto simp: s)
  with Cons show ?case by (simp add: forward_ws_def)
qed

lemma forward_step_sleep:
  assumes "snd (forward_step e (st, ls) i) = Sleeping d"
  shows "ls = Sleeping d \<or> d = RECONNECT_INTERVAL"
  using assms by (cases ls; cases i) (auto dest: forward_receive_sleep)

lemma forward_trace_sleep:
  assumes "Sleeping d \<in> set (forward_trace e s inputs)"
  shows "snd s = Sleeping d \<or> d = RECONNECT_INTERVAL"
  using assms
proof (induction inputs arbitrary: s)
  case Nil
  then show ?case by simp
next
  case (Cons i inputs)
  obtain st ls where s: "s = (st, ls)" by (cases s)
  from Cons.prems have "snd (forward_step e s i) = Sleeping d \<or> d = RECONNECT_INTERVAL"
    using Cons.IH [of "forward_step e s i"] by auto
  then show ?case
    using forward_step_sleep [of e st ls i d] by (auto simp: s)
qed

text \<open>
  Claim C9. The reconnect interval is 3. A connect that fails puts the link to sleep
  for that interval, and on waking the link connects again; after any number \<open>n\<close> of
  failed connects the link is connecting once more, having slept the same interval
  each time. An error after the connect (the receive fails, or the received text is
  not JSON) runs the \<^verbatim>\<open>finally\<close> block and puts the link to sleep for the same
  interval. Without a cancellation the link never stops, and every sleep that the
  link enters lasts the reconnect interval.
\<close>

theorem forward_link_reconnects:
  "RECONNECT_INTERVAL = 3
   \<and> forward_step e (st, Connecting) ConnectFailed = (st, Sleeping RECONNECT_INTERVAL)
   \<and> forward_step e (st, Sleeping d) Woke = (st, Connecting)
   \<and> forward_ws e (st, Connecting) (concat (replicate n [ConnectFailed, Woke])) = (st, Connecting)
   \<and> forward_trace e (st, Connecting) (concat (replicate n [ConnectFailed, Woke]))
       = concat (replicate n [Sleeping RECONNECT_INTERVAL, Connecting])
   \<and> forward_step e (st, Receiving ws b) ReceiveFailed
       = (forward_finally st b, Sleeping RECONNECT_INTERVAL)
   \<and> (json_loads e data = None \<longrightarrow>
        forward_step e (st, Receiving ws b) (Received data)
          = (forward_finally st b, Sleeping RECONNECT_INTERVAL))
   \<and> (Cancelled \<notin> set inputs \<and> ls \<noteq> Stopped \<longrightarrow>
        snd (forward_ws e (st, ls) inputs) \<noteq> Stopped)
   \<and> (ls \<noteq> Sleeping w \<and> Sleeping w \<in> set (forward_trace e (st, ls) inputs) \<longrightarrow>
        w = RECONNECT_INTERVAL)"
  using forward_ws_retries [of e st n] forward_trace_retries [of e st n]
    forward_ws_not_stopped [of inputs "(st, ls)" e] forward_trace_sleep [of w e "(st, ls)" inputs]
  by (auto simp: RECONNECT_INTERVAL_def forward_receive_def)

text \<open>
  The theorem on a link that fails to connect, connects, receives a text that is not
  JSON, and wakes up again.
\<close>

theorem forward_link_reconnects_witness:
  "json_loads sample_env ''{'' = None
   \<and> forward_step sample_env (empty_adapter, Receiving forward_socket None) (Received ''{'')
       = (empty_adapter, Sleeping 3)
   \<and> Cancelled \<notin> set [ConnectFailed, Woke, Connected forward_socket, Received ''{'', Woke]
   \<and> snd (forward_ws sample_env (empty_adapter, Connecting)
             [ConnectFailed, Woke, Connected forward_socket, Received ''{'', Woke]) \<noteq> Stopped
   \<and> Sleeping 3 \<in> set (forward_trace sample_env (empty_adapter, Connecting)
                          [ConnectFailed, Woke, Connected forward_socket, Received ''{'', Woke])
   \<and> forward_ws sample_env (empty_adapter, Connecting)
        (concat (replicate 2 [ConnectFailed, Woke])) = (empty_adapter, Connecting)"
proof -
  let ?inputs = "[ConnectFailed, Woke, Connected forward_socket, Received ''{'', Woke]"
  note t = forward_link_reconnects [of sample_env empty_adapter 3 2 forward_socket None "''{''"
                                       ?inputs Connecting 3]
  have a: "json_loads sample_env ''{'' = None"
    by (simp add: sample_env_def sample_env_fields sample_loads_brace)
  have b: "Cancelled \<notin> set ?inputs"
    by simp
  have c: "forward_finally empty_adapter None = empty_adapter"
    by (simp add: forward_finally_def)
  have d: "Sleeping 3 \<in> set (forward_trace sample_env (empty_adapter, Connecting) ?inputs)"
    by (simp add: RECONNECT_INTERVAL_def)
  from t a b c have "forward_step sample_env (empty_adapter, Receiving forward_socket None) (Received ''{'')
       = (empty_adapter, Sleeping 3)"
    by simp
  moreover from t b have "snd (forward_ws sample_env (empty_adapter, Connecting) ?inputs) \<noteq> Stopped"
    by blast
  moreover from t have "forward_ws sample_env (empty_adapter, Connecting)
        (concat (replicate 2 [ConnectFailed, Woke])) = (empty_adapter, Connecting)"
    by blast
  ultimately show ?thesis using a b d by blast
qed

end
